theory Spec2Isabelle
  imports Main
begin

section \<open>The Promtail converter (converter/internal/promtailconvert/promtailconvert.go)\<close>

subsection \<open>Diagnostics\<close>

text \<open>
  \<^verbatim>\<open>diag.Diagnostics\<close> is a slice of diagnostics, each with a severity level and a
  message. The package \<^verbatim>\<open>converter/diag\<close> is not among the sources; \<^verbatim>\<open>Convert\<close> itself
  treats the type as a slice (\<^verbatim>\<open>append(diags, newDiags...)\<close>, line 85), and \<^verbatim>\<open>Add\<close> is
  taken to append one diagnostic at the end.
\<close>

datatype Severity =
  SeverityLevelInfo | SeverityLevelWarn | SeverityLevelError | SeverityLevelCritical

datatype Diagnostic = Diagnostic (Severity: Severity) (Message: string)

type_synonym Diagnostics = "Diagnostic list"

definition Add :: "Diagnostics \<Rightarrow> Severity \<Rightarrow> string \<Rightarrow> Diagnostics" where
  "Add diags sev msg = diags @ [Diagnostic sev msg]"

subsection \<open>The configuration that is read\<close>

text \<open>
  Of \<^verbatim>\<open>client.Config\<close> the fields that decide a diagnostic or a branch are kept; the
  remaining ones (\<^verbatim>\<open>BatchWait\<close>, \<^verbatim>\<open>Client\<close>, \<^verbatim>\<open>Headers\<close>, \<^verbatim>\<open>BackoffConfig\<close>,
  \<^verbatim>\<open>Timeout\<close>, \<^verbatim>\<open>TenantID\<close>, \<^verbatim>\<open>ExternalLabels\<close>) are copied into the arguments of the
  block unchanged and are left out. \<^verbatim>\<open>URL\<close> is \<open>None\<close> for the nil pointer
  \<^verbatim>\<open>URL.URL\<close>. The scrape configurations are of a type \<open>'sc\<close> that the converter only
  hands to the scrape-config builder.
\<close>

record ClientConfig =
  Name :: string
  URL :: "string option"
  BatchSize :: int
  DropRateLimitedBatches :: bool
  StreamLagLabels :: "string list"

record 'sc Config =
  ClientConfig :: ClientConfig
  ClientConfigs :: "ClientConfig list"
  ScrapeConfig :: "'sc list"
  TargetSyncPeriod :: int

record EndpointOptions =
  EndpointName :: string
  EndpointURL :: string
  EndpointBatchSize :: int

record GlobalContext =
  WriteReceivers :: "string list"
  GlobalTargetSyncPeriod :: int

subsection \<open>The collaborators that are not among the sources\<close>

text \<open>
  The functions below are called by the converter and live in other packages
  (\<^verbatim>\<open>lokicfgutil\<close>, \<^verbatim>\<open>yaml.v2\<close>, \<^verbatim>\<open>units\<close>, \<^verbatim>\<open>converter/internal/common\<close>,
  \<^verbatim>\<open>converter/internal/promtailconvert/internal/build\<close>, \<^verbatim>\<open>river/token/builder\<close>) or in
  a file of this package that is not among the sources (\<^verbatim>\<open>validateTopLevelConfig\<close>).
  They are parameters: a fallible call returns \<open>Inl\<close> with the error's text. A file
  under construction is the list of its blocks, of a type \<open>'b\<close>; the state of a
  scrape-config builder is of a type \<open>'s\<close>, from which the file and the diagnostics it
  has written to are read back. \<^verbatim>\<open>WriteTo\<close> returns what it has written to the buffer
  together with its error, if any.
\<close>

record ('sc, 'b, 's) Collaborators =
  UnmarshalDefaults :: "string + 'sc Config"
  UnmarshalStrict :: "string \<Rightarrow> 'sc Config \<Rightarrow> string + 'sc Config"
  validateTopLevelConfig :: "'sc Config \<Rightarrow> Diagnostics \<Rightarrow> Diagnostics"
  ParseBase2Bytes :: "int \<Rightarrow> string + int"
  NewBlockWithOverride :: "string list \<Rightarrow> string \<Rightarrow> EndpointOptions \<Rightarrow> 'b"
  NewScrapeConfigBuilder :: "'b list \<Rightarrow> Diagnostics \<Rightarrow> 'sc \<Rightarrow> GlobalContext \<Rightarrow> 's"
  AppendKubernetesSDs :: "'s \<Rightarrow> 's"
  AppendDockerSDs :: "'s \<Rightarrow> 's"
  AppendStaticSDs :: "'s \<Rightarrow> 's"
  AppendLokiSourceFile :: "'s \<Rightarrow> 's"
  AppendCloudFlareConfig :: "'s \<Rightarrow> 's"
  AppendJournalConfig :: "'s \<Rightarrow> 's"
  builderFile :: "'s \<Rightarrow> 'b list"
  builderDiags :: "'s \<Rightarrow> Diagnostics"
  WriteTo :: "'b list \<Rightarrow> string \<times> string option"
  PrettyPrint :: "string \<Rightarrow> string option \<times> Diagnostics"

subsection \<open>Decimal rendering of an index (\<^verbatim>\<open>%d\<close>)\<close>

definition digitChar :: "nat \<Rightarrow> char" where
  "digitChar d = ''0123456789'' ! d"

function showNat :: "nat \<Rightarrow> string" where
  "showNat n =
     (if n < 10 then [digitChar n]
      else showNat (n div 10) @ [digitChar (n mod 10)])"
  by pat_completeness auto
termination
  by (relation "measure id") auto

declare showNat.simps [simp del]

subsection \<open>\<^verbatim>\<open>toLokiWriteArguments\<close>, \<^verbatim>\<open>newLokiWrite\<close>\<close>

definition toLokiWriteArguments ::
  "('sc, 'b, 's) Collaborators \<Rightarrow> ClientConfig \<Rightarrow> Diagnostics \<Rightarrow> EndpointOptions \<times> Diagnostics"
where
  "toLokiWriteArguments E config diags =
     (let (batchSize, diags1) =
            (case ParseBase2Bytes E (BatchSize config) of
               Inl err \<Rightarrow>
                 (0, Add diags SeverityLevelError
                       (''failed to parse BatchSize for client config '' @ Name config @ '': '' @ err))
             | Inr n \<Rightarrow> (n, diags));
          diags2 =
            (if DropRateLimitedBatches config
             then Add diags1 SeverityLevelError
                   ''DropRateLimitedBatches is currently not supported in Grafana Agent Flow.''
             else diags1);
          diags3 =
            (if length (StreamLagLabels config) \<noteq> 0
             then Add diags2 SeverityLevelWarn
                   ''stream_lag_labels is deprecated and the associated metric has been removed''
             else diags2)
      in (\<lparr> EndpointName = Name config,
             EndpointURL = (case URL config of None \<Rightarrow> [] | Some u \<Rightarrow> u),
             EndpointBatchSize = batchSize \<rparr>, diags3))"

definition newLokiWrite ::
  "('sc, 'b, 's) Collaborators \<Rightarrow> ClientConfig \<Rightarrow> Diagnostics \<Rightarrow> nat \<Rightarrow> ('b \<times> string) \<times> Diagnostics"
where
  "newLokiWrite E client diags index =
     (let label = ''default_'' @ showNat index;
          (lokiWriteArgs, diags') = toLokiWriteArguments E client diags;
          block = NewBlockWithOverride E [''loki'', ''write''] label lokiWriteArgs
      in ((block, ''loki.write.'' @ label @ ''.receiver''), diags'))"

subsection \<open>\<^verbatim>\<open>appendScrapeConfig\<close>, \<^verbatim>\<open>AppendAll\<close>\<close>

definition appendScrapeConfig ::
  "('sc, 'b, 's) Collaborators \<Rightarrow> 'b list \<Rightarrow> 'sc \<Rightarrow> Diagnostics \<Rightarrow> GlobalContext
     \<Rightarrow> 'b list \<times> Diagnostics"
where
  "appendScrapeConfig E f cfg diags gctx =
     (let b = NewScrapeConfigBuilder E f diags cfg gctx;
          b = AppendKubernetesSDs E b;
          b = AppendDockerSDs E b;
          b = AppendStaticSDs E b;
          b = AppendLokiSourceFile E b;
          b = AppendCloudFlareConfig E b;
          b = AppendJournalConfig E b
      in (builderFile E b, builderDiags E b))"

text \<open>The loop over the client configurations, with the index \<open>i\<close> of the next one.\<close>

fun writeLoop ::
  "('sc, 'b, 's) Collaborators \<Rightarrow> nat \<Rightarrow> ClientConfig list \<Rightarrow> Diagnostics
     \<Rightarrow> ('b \<times> string) list \<times> Diagnostics"
where
  "writeLoop E i [] diags = ([], diags)"
| "writeLoop E i (cc # ccs) diags =
     (let (w, diags1) = newLokiWrite E cc diags i;
          (ws, diags2) = writeLoop E (Suc i) ccs diags1
      in (w # ws, diags2))"

text \<open>The loop over the scrape configurations.\<close>

fun scrapeLoop ::
  "('sc, 'b, 's) Collaborators \<Rightarrow> GlobalContext \<Rightarrow> 'sc list \<Rightarrow> 'b list \<Rightarrow> Diagnostics
     \<Rightarrow> 'b list \<times> Diagnostics"
where
  "scrapeLoop E gc [] f diags = (f, diags)"
| "scrapeLoop E gc (sc # scs) f diags =
     (let (f1, diags1) = appendScrapeConfig E f sc diags gc
      in scrapeLoop E gc scs f1 diags1)"

definition AppendAll ::
  "('sc, 'b, 's) Collaborators \<Rightarrow> 'b list \<Rightarrow> 'sc Config \<Rightarrow> Diagnostics \<Rightarrow> 'b list \<times> Diagnostics"
where
  "AppendAll E f cfg diags =
     (let diags0 = validateTopLevelConfig E cfg diags;
          (writes, diags1) = writeLoop E 0 (ClientConfigs cfg) diags0;
          gc = \<lparr> WriteReceivers = map snd writes,
                 GlobalTargetSyncPeriod = TargetSyncPeriod cfg \<rparr>;
          (f1, diags2) = scrapeLoop E gc (ScrapeConfig cfg) f diags1
      in (f1 @ map fst writes, diags2))"

subsection \<open>\<^verbatim>\<open>Convert\<close>\<close>

text \<open>
  The result is the pair of the Go function: the output bytes, \<open>None\<close> for the nil
  slice, and the diagnostics. \<^verbatim>\<open>builder.NewFile()\<close> is the file without blocks.
\<close>

definition withDeprecatedClient :: "'sc Config \<Rightarrow> 'sc Config" where
  "withDeprecatedClient cfg =
     (if URL (ClientConfig cfg) \<noteq> None
      then cfg\<lparr> ClientConfigs := ClientConfigs cfg @ [ClientConfig cfg] \<rparr>
      else cfg)"

definition Convert ::
  "('sc, 'b, 's) Collaborators \<Rightarrow> string \<Rightarrow> string option \<times> Diagnostics"
where
  "Convert E inp =
     (case UnmarshalDefaults E of
        Inl err \<Rightarrow>
          (None, Add [] SeverityLevelCritical
                   (''failed to set default Promtail config values: '' @ err))
      | Inr cfg0 \<Rightarrow>
          (case UnmarshalStrict E inp cfg0 of
             Inl err \<Rightarrow>
               (None, Add [] SeverityLevelCritical
                        (''failed to parse Promtail config: '' @ err))
           | Inr cfg1 \<Rightarrow>
               (let (f, diags) = AppendAll E [] (withDeprecatedClient cfg1) []
                in case WriteTo E f of
                     (buf, Some err) \<Rightarrow>
                       (None, Add diags SeverityLevelCritical
                                (''failed to render Flow config: '' @ err))
                   | (buf, None) \<Rightarrow>
                       if length buf = 0 then (None, diags)
                       else (let (prettyByte, newDiags) = PrettyPrint E buf
                             in (prettyByte, diags @ newDiags)))))"

subsection \<open>A concrete set of collaborators\<close>

text \<open>
  Collaborators on which every call succeeds: the input is taken as the URL of the
  deprecated single client, a block is rendered as its name and label, every builder
  step leaves the file and the diagnostics as they are, and the pretty-printer returns
  its input. The variants make one of the three fallible calls fail.
\<close>

definition defaultConfig :: "string Config" where
  "defaultConfig =
     \<lparr> ClientConfig = \<lparr> Name = [], URL = None, BatchSize = 1048576,
                        DropRateLimitedBatches = False, StreamLagLabels = [] \<rparr>,
       ClientConfigs = [], ScrapeConfig = [], TargetSyncPeriod = 10 \<rparr>"

definition okCollaborators :: "(string, string, string list \<times> Diagnostics) Collaborators" where
  "okCollaborators =
     \<lparr> UnmarshalDefaults = Inr defaultConfig,
       UnmarshalStrict = (\<lambda>inp cfg.
          if inp = [] then Inr cfg
          else Inr (cfg\<lparr> ClientConfig := (ClientConfig cfg)\<lparr> URL := Some inp \<rparr> \<rparr>)),
       validateTopLevelConfig = (\<lambda>cfg diags. diags),
       ParseBase2Bytes = (\<lambda>n. if n < 0 then Inl ''negative size'' else Inr n),
       NewBlockWithOverride = (\<lambda>name label args. concat name @ '' '' @ label),
       NewScrapeConfigBuilder = (\<lambda>f diags sc gc. (f, diags)),
       AppendKubernetesSDs = (\<lambda>b. b),
       AppendDockerSDs = (\<lambda>b. b),
       AppendStaticSDs = (\<lambda>b. b),
       AppendLokiSourceFile = (\<lambda>b. b),
       AppendCloudFlareConfig = (\<lambda>b. b),
       AppendJournalConfig = (\<lambda>b. b),
       builderFile = fst,
       builderDiags = snd,
       WriteTo = (\<lambda>f. (concat f, None)),
       PrettyPrint = (\<lambda>buf. (Some buf, [])) \<rparr>"

definition noDefaults :: "(string, string, string list \<times> Diagnostics) Collaborators" where
  "noDefaults = okCollaborators\<lparr> UnmarshalDefaults := Inl ''flag redefined'' \<rparr>"

definition noParse :: "(string, string, string list \<times> Diagnostics) Collaborators" where
  "noParse = okCollaborators\<lparr> UnmarshalStrict := (\<lambda>inp cfg. Inl ''yaml: line 1'') \<rparr>"

definition noRender :: "(string, string, string list \<times> Diagnostics) Collaborators" where
  "noRender = okCollaborators\<lparr> WriteTo := (\<lambda>f. (take 4 (concat f), Some ''short write'')) \<rparr>"

section \<open>Properties of the converter\<close>

lemma Convert_defaults_fail:
  "UnmarshalDefaults E = Inl err \<Longrightarrow>
   Convert E inp =
     (None, [Diagnostic SeverityLevelCritical
               (''failed to set default Promtail config values: '' @ err)])"
  by (simp add: Convert_def Add_def)

lemma Convert_parse_fail:
  "UnmarshalDefaults E = Inr cfg0 \<Longrightarrow> UnmarshalStrict E inp cfg0 = Inl err \<Longrightarrow>
   Convert E inp =
     (None, [Diagnostic SeverityLevelCritical (''failed to parse Promtail config: '' @ err)])"
  by (simp add: Convert_def Add_def)

lemma Convert_render_fail:
  "UnmarshalDefaults E = Inr cfg0 \<Longrightarrow> UnmarshalStrict E inp cfg0 = Inr cfg1 \<Longrightarrow>
   AppendAll E [] (withDeprecatedClient cfg1) [] = (f, diags) \<Longrightarrow>
   WriteTo E f = (buf, Some err) \<Longrightarrow>
   Convert E inp =
     (None, diags @ [Diagnostic SeverityLevelCritical (''failed to render Flow config: '' @ err)])"
  by (simp add: Convert_def Add_def)

lemma Convert_render_empty:
  "UnmarshalDefaults E = Inr cfg0 \<Longrightarrow> UnmarshalStrict E inp cfg0 = Inr cfg1 \<Longrightarrow>
   AppendAll E [] (withDeprecatedClient cfg1) [] = (f, diags) \<Longrightarrow>
   WriteTo E f = ([], None) \<Longrightarrow>
   Convert E inp = (None, diags)"
  by (simp add: Convert_def)

lemma Convert_output_success:
  assumes "fst (Convert E inp) = Some out"
  shows "\<exists>cfg0 cfg1 f diags buf newDiags.
           UnmarshalDefaults E = Inr cfg0 \<and> UnmarshalStrict E inp cfg0 = Inr cfg1 \<and>
           AppendAll E [] (withDeprecatedClient cfg1) [] = (f, diags) \<and>
           WriteTo E f = (buf, None) \<and> buf \<noteq> [] \<and>
           PrettyPrint E buf = (Some out, newDiags) \<and>
           Convert E inp = (Some out, diags @ newDiags)"
  using assms
  by (auto simp: Convert_def Let_def split: sum.splits prod.splits option.splits if_splits)

lemma AppendAll_ok_url:
  "AppendAll okCollaborators []
     (withDeprecatedClient
        (defaultConfig\<lparr> ClientConfig := (ClientConfig defaultConfig)\<lparr> URL := Some ''u'' \<rparr> \<rparr>)) [] =
   ([''lokiwrite default_0''], [])"
  by (simp add: AppendAll_def withDeprecatedClient_def defaultConfig_def okCollaborators_def
      newLokiWrite_def toLokiWriteArguments_def showNat.simps [of 0] digitChar_def)

lemma AppendAll_noRender_url:
  "AppendAll noRender []
     (withDeprecatedClient
        (defaultConfig\<lparr> ClientConfig := (ClientConfig defaultConfig)\<lparr> URL := Some ''u'' \<rparr> \<rparr>)) [] =
   ([''lokiwrite default_0''], [])"
  by (simp add: AppendAll_def withDeprecatedClient_def defaultConfig_def okCollaborators_def
      noRender_def newLokiWrite_def toLokiWriteArguments_def showNat.simps [of 0] digitChar_def)

lemma AppendAll_ok_empty:
  "AppendAll okCollaborators [] (withDeprecatedClient defaultConfig) [] = ([], [])"
  by (simp add: AppendAll_def withDeprecatedClient_def defaultConfig_def okCollaborators_def)

text \<open>
  C10. \<^verbatim>\<open>Convert\<close> returns the nil slice in each of the three cases in which it adds a
  diagnostic of critical severity: when the defaults cannot be set, when the YAML input
  cannot be parsed, and when the Flow configuration cannot be rendered (what
  \<^verbatim>\<open>WriteTo\<close> had written before it failed is dropped). It returns the nil slice as
  well when the rendered configuration is empty. When the output is not nil, all of
  the fallible calls have succeeded, the rendered configuration is not empty, and the
  diagnostics are those of \<^verbatim>\<open>AppendAll\<close> followed by those of the pretty-printer:
  \<^verbatim>\<open>Convert\<close> has added none of its own.
\<close>

theorem Convert_nil_on_critical:
  "(\<forall>err. UnmarshalDefaults E = Inl err \<longrightarrow>
      Convert E inp =
        (None, [Diagnostic SeverityLevelCritical
                  (''failed to set default Promtail config values: '' @ err)]))
   \<and> (\<forall>cfg0 err. UnmarshalDefaults E = Inr cfg0 \<and> UnmarshalStrict E inp cfg0 = Inl err \<longrightarrow>
      Convert E inp =
        (None, [Diagnostic SeverityLevelCritical
                  (''failed to parse Promtail config: '' @ err)]))
   \<and> (\<forall>cfg0 cfg1 f diags buf err.
        UnmarshalDefaults E = Inr cfg0 \<and> UnmarshalStrict E inp cfg0 = Inr cfg1 \<and>
        AppendAll E [] (withDeprecatedClient cfg1) [] = (f, diags) \<and>
        WriteTo E f = (buf, Some err) \<longrightarrow>
      Convert E inp =
        (None, diags @ [Diagnostic SeverityLevelCritical
                          (''failed to render Flow config: '' @ err)]))
   \<and> (\<forall>cfg0 cfg1 f diags.
        UnmarshalDefaults E = Inr cfg0 \<and> UnmarshalStrict E inp cfg0 = Inr cfg1 \<and>
        AppendAll E [] (withDeprecatedClient cfg1) [] = (f, diags) \<and>
        WriteTo E f = ([], None) \<longrightarrow>
      Convert E inp = (None, diags))
   \<and> (\<forall>out. fst (Convert E inp) = Some out \<longrightarrow>
        (\<exists>cfg0 cfg1 f diags buf newDiags.
           UnmarshalDefaults E = Inr cfg0 \<and> UnmarshalStrict E inp cfg0 = Inr cfg1 \<and>
           AppendAll E [] (withDeprecatedClient cfg1) [] = (f, diags) \<and>
           WriteTo E f = (buf, None) \<and> buf \<noteq> [] \<and>
           PrettyPrint E buf = (Some out, newDiags) \<and>
           Convert E inp = (Some out, diags @ newDiags)))"
proof (intro conjI allI impI)
  fix err assume "UnmarshalDefaults E = Inl err"
  then show "Convert E inp =
        (None, [Diagnostic SeverityLevelCritical
                  (''failed to set default Promtail config values: '' @ err)])"
    by (rule Convert_defaults_fail)
next
  fix cfg0 err
  assume "UnmarshalDefaults E = Inr cfg0 \<and> UnmarshalStrict E inp cfg0 = Inl err"
  then show "Convert E inp =
        (None, [Diagnostic SeverityLevelCritical
                  (''failed to parse Promtail config: '' @ err)])"
    by (simp add: Convert_parse_fail)
next
  fix cfg0 cfg1 f diags buf err
  assume "UnmarshalDefaults E = Inr cfg0 \<and> UnmarshalStrict E inp cfg0 = Inr cfg1 \<and>
        AppendAll E [] (withDeprecatedClient cfg1) [] = (f, diags) \<and>
        WriteTo E f = (buf, Some err)"
  then show "Convert E inp =
        (None, diags @ [Diagnostic SeverityLevelCritical
                          (''failed to render Flow config: '' @ err)])"
    by (simp add: Convert_render_fail)
next
  fix cfg0 cfg1 f diags
  assume "UnmarshalDefaults E = Inr cfg0 \<and> UnmarshalStrict E inp cfg0 = Inr cfg1 \<and>
        AppendAll E [] (withDeprecatedClient cfg1) [] = (f, diags) \<and>
        WriteTo E f = ([], None)"
  then show "Convert E inp = (None, diags)"
    by (simp add: Convert_render_empty)
next
  fix out assume "fst (Convert E inp) = Some out"
  then show "\<exists>cfg0 cfg1 f diags buf newDiags.
           UnmarshalDefaults E = Inr cfg0 \<and> UnmarshalStrict E inp cfg0 = Inr cfg1 \<and>
           AppendAll E [] (withDeprecatedClient cfg1) [] = (f, diags) \<and>
           WriteTo E f = (buf, None) \<and> buf \<noteq> [] \<and>
           PrettyPrint E buf = (Some out, newDiags) \<and>
           Convert E inp = (Some out, diags @ newDiags)"
    by (rule Convert_output_success)
qed

text \<open>
  The theorem at the concrete collaborators: the three failures, the empty rendering
  (the empty input leaves the client without URL, so no block is written), and a
  conversion that succeeds, whose output is the single \<^verbatim>\<open>loki.write\<close> block.
\<close>

theorem Convert_nil_on_critical_witness:
  "Convert noDefaults ''u'' =
     (None, [Diagnostic SeverityLevelCritical
               ''failed to set default Promtail config values: flag redefined''])
   \<and> Convert noParse ''u'' =
     (None, [Diagnostic SeverityLevelCritical ''failed to parse Promtail config: yaml: line 1''])
   \<and> Convert noRender ''u'' =
     (None, [Diagnostic SeverityLevelCritical ''failed to render Flow config: short write''])
   \<and> Convert okCollaborators [] = (None, [])
   \<and> Convert okCollaborators ''u'' = (Some ''lokiwrite default_0'', [])"
proof (intro conjI)
  have "UnmarshalDefaults noDefaults = Inl ''flag redefined''"
    by (simp add: noDefaults_def)
  with Convert_nil_on_critical [of noDefaults "''u''"]
  show "Convert noDefaults ''u'' =
     (None, [Diagnostic SeverityLevelCritical
               ''failed to set default Promtail config values: flag redefined''])"
    by simp
next
  have "UnmarshalDefaults noParse = Inr defaultConfig \<and>
        UnmarshalStrict noParse ''u'' defaultConfig = Inl ''yaml: line 1''"
    by (simp add: noParse_def okCollaborators_def)
  with Convert_nil_on_critical [of noParse "''u''"]
  show "Convert noParse ''u'' =
     (None, [Diagnostic SeverityLevelCritical ''failed to parse Promtail config: yaml: line 1''])"
    by fastforce
next
  let ?cfg1 = "defaultConfig\<lparr> ClientConfig := (ClientConfig defaultConfig)\<lparr> URL := Some ''u'' \<rparr> \<rparr>"
  have a: "AppendAll noRender [] (withDeprecatedClient ?cfg1) [] = ([''lokiwrite default_0''], [])"
    by (rule AppendAll_noRender_url)
  have "UnmarshalDefaults noRender = Inr defaultConfig \<and>
        UnmarshalStrict noRender ''u'' defaultConfig = Inr ?cfg1 \<and>
        AppendAll noRender [] (withDeprecatedClient ?cfg1) [] = ([''lokiwrite default_0''], []) \<and>
        WriteTo noRender [''lokiwrite default_0''] = (''loki'', Some ''short write'')"
    using a by (simp add: noRender_def okCollaborators_def)
  with Convert_nil_on_critical [of noRender "''u''"]
  show "Convert noRender ''u'' =
     (None, [Diagnostic SeverityLevelCritical ''failed to render Flow config: short write''])"
    by fastforce
next
  have "UnmarshalDefaults okCollaborators = Inr defaultConfig \<and>
        UnmarshalStrict okCollaborators [] defaultConfig = Inr defaultConfig \<and>
        AppendAll okCollaborators [] (withDeprecatedClient defaultConfig) [] = ([], []) \<and>
        WriteTo okCollaborators [] = ([], None)"
    using AppendAll_ok_empty by (simp add: okCollaborators_def)
  with Convert_nil_on_critical [of okCollaborators "[]"]
  show "Convert okCollaborators [] = (None, [])"
    by fastforce
next
  let ?cfg1 = "defaultConfig\<lparr> ClientConfig := (ClientConfig defaultConfig)\<lparr> URL := Some ''u'' \<rparr> \<rparr>"
  have c: "Convert okCollaborators ''u'' = (Some ''lokiwrite default_0'', [])"
    using AppendAll_ok_url
    by (simp add: Convert_def okCollaborators_def)
  then have "fst (Convert okCollaborators ''u'') = Some ''lokiwrite default_0''"
    by simp
  with Convert_nil_on_critical [of okCollaborators "''u''"]
  obtain diags newDiags where
    "Convert okCollaborators ''u'' = (Some ''lokiwrite default_0'', diags @ newDiags)"
    by blast
  with c show "Convert okCollaborators ''u'' = (Some ''lokiwrite default_0'', [])"
    by simp
qed

end
